theory Spec2Isabelle
  imports Complex_Main "HOL-Library.Sublist"
begin

section \<open>The DETR training script \<open>d2/train_net.py\<close>\<close>

text \<open>
  The script subclasses the framework's trainer and overrides three factories
  (\<open>build_evaluator\<close>, \<open>build_train_loader\<close>, \<open>build_optimizer\<close>), and assembles the
  configuration in \<open>setup\<close>. The definitions below follow the Python line by line.

  Conventions of the embedding:
  \<^item> A parameter tensor is a Python object. The script compares tensors by identity only
    (\<open>value in memo\<close> on a set of tensors hashes by \<open>id\<close>), and reads one attribute,
    \<open>requires_grad\<close>. A tensor is therefore a reference (\<open>param_ref\<close>) into a store that
    holds the attributes; two names alias when they yield the same reference.
  \<^item> \<open>model.named_parameters(recurse=True)\<close> is the list of (name, reference) pairs
    in the order the iteration yields them. Nothing is assumed about that list: the
    same reference may be yielded under several names.
  \<^item> The numbers of the configuration (learning rate, multiplier, clip value) are of
    a type \<open>'a\<close> of which only \<open>*\<close>, \<open>0\<close> and \<open><\<close> are used, with no law assumed, so that
    every theorem holds for whatever arithmetic the interpreter applies.
  \<^item> A raised exception is the \<open>Inl\<close> branch of a sum.
\<close>

subsection \<open>Configuration\<close>

record 'a clip_gradients =
  ENABLED :: bool
  CLIP_TYPE :: string
  CLIP_VALUE :: 'a

record 'a solver =
  BASE_LR :: 'a
  WEIGHT_DECAY :: 'a
  BACKBONE_MULTIPLIER :: 'a
  MOMENTUM :: 'a
  OPTIMIZER :: string
  CLIP_GRADIENTS :: "'a clip_gradients"

record model_cfg =
  META_ARCHITECTURE :: string

record 'a cfg =
  SOLVER :: "'a solver"
  MODEL :: model_cfg
  OUTPUT_DIR :: string

subsection \<open>Models, tensors and parameter groups\<close>

type_synonym param_ref = nat

record tensor =
  requires_grad :: bool

record module =
  named_parameters :: "(string \<times> param_ref) list"
  store :: "param_ref \<Rightarrow> tensor"

text \<open>One dictionary \<open>{"params": [value], "lr": lr, "weight_decay": weight_decay}\<close>.\<close>

record 'a param_group =
  params :: "param_ref list"
  lr :: 'a
  weight_decay :: 'a

datatype error = NotImplementedError string

subsection \<open>The optimizer classes\<close>

datatype torch_optim = SGD | AdamW

text \<open>
  \<open>maybe_add_full_model_gradient_clipping\<close> returns a class: either the class it was
  given, or the local subclass \<open>FullModelGradientClippingOptimizer\<close> of it, whose
  \<open>step\<close> clips the gradients of all groups to the norm \<open>clip_norm_val\<close> it closes over.
\<close>

datatype 'a optim_class =
  Torch torch_optim
| FullModelGradientClippingOptimizer torch_optim 'a

record 'a optimizer =
  optim_class :: "'a optim_class"
  param_groups :: "'a param_group list"
  default_lr :: 'a
  momentum :: "'a option"

text \<open>
  \<open>maybe_add_gradient_clipping\<close> is the framework's own wrapper (per-parameter-group
  clipping); it is not part of the script. Its application to an optimizer is kept
  symbolic: \<open>MaybeAddGradientClipping cfg optimizer\<close> is the value the framework
  returns for \<open>maybe_add_gradient_clipping(cfg, optimizer)\<close>, and \<open>Bare optimizer\<close> is an
  optimizer that was never handed to it.
\<close>

datatype 'a built =
  Bare "'a optimizer"
| MaybeAddGradientClipping "'a cfg" "'a optimizer"

fun optimizer_of :: "'a built \<Rightarrow> 'a optimizer" where
  "optimizer_of (Bare optimizer) = optimizer"
| "optimizer_of (MaybeAddGradientClipping c optimizer) = optimizer"

fun per_group_clipping :: "'a built \<Rightarrow> bool" where
  "per_group_clipping (Bare optimizer) = False"
| "per_group_clipping (MaybeAddGradientClipping c optimizer) = True"

fun full_model_clipping :: "'a built \<Rightarrow> bool" where
  "full_model_clipping b =
     (case optim_class (optimizer_of b) of
        Torch t \<Rightarrow> False
      | FullModelGradientClippingOptimizer t v \<Rightarrow> True)"

subsection \<open>\<open>Trainer.build_optimizer\<close>\<close>

text \<open>
  \<open>torch.optim.SGD\<close> and \<open>torch.optim.AdamW\<close> are the library's constructors: the model
  records the class, the groups and the arguments the script passes. The library
  validates these arguments and raises \<open>ValueError\<close> on some of them (an empty list of
  groups, a negative learning rate or momentum); that exception is raised outside
  the script and has no branch here. An \<open>Inr\<close> result therefore means that the script
  reaches its \<open>return\<close> provided the constructor accepted its arguments, and every
  property below of a returned optimizer is stated under the hypothesis that one is
  returned; none asserts that a call returns.
\<close>

text \<open>
  The loop of lines 85 to 96 over \<open>model.named_parameters(recurse=True)\<close>; its state is
  the list \<open>params\<close> built so far and the set \<open>memo\<close> of tensors already seen.
\<close>

fun build_params ::
  "('a::times) cfg \<Rightarrow> (param_ref \<Rightarrow> tensor) \<Rightarrow> (string \<times> param_ref) list \<Rightarrow>
   'a param_group list \<times> param_ref set \<Rightarrow> 'a param_group list \<times> param_ref set" where
  "build_params cfg st [] (ps, memo) = (ps, memo)"
| "build_params cfg st ((key, value) # rest) (ps, memo) =
     (if \<not> requires_grad (st value) then build_params cfg st rest (ps, memo)
      else if value \<in> memo then build_params cfg st rest (ps, memo)
      else
        let memo' = insert value memo;
            lr0 = BASE_LR (SOLVER cfg);
            weight_decay0 = WEIGHT_DECAY (SOLVER cfg);
            lr1 = (if sublist ''backbone'' key
                   then lr0 * BACKBONE_MULTIPLIER (SOLVER cfg) else lr0)
        in build_params cfg st rest
             (ps @ [\<lparr>params = [value], lr = lr1, weight_decay = weight_decay0\<rparr>], memo'))"

definition maybe_add_full_model_gradient_clipping ::
  "('a::{zero,ord}) cfg \<Rightarrow> torch_optim \<Rightarrow> 'a optim_class" where
  "maybe_add_full_model_gradient_clipping cfg optim =
     (let clip_norm_val = CLIP_VALUE (CLIP_GRADIENTS (SOLVER cfg));
          enable = (ENABLED (CLIP_GRADIENTS (SOLVER cfg))
                    \<and> CLIP_TYPE (CLIP_GRADIENTS (SOLVER cfg)) = ''full_model''
                    \<and> 0 < clip_norm_val)
      in if enable then FullModelGradientClippingOptimizer optim clip_norm_val
         else Torch optim)"

definition build_optimizer ::
  "('a::{times,zero,ord}) cfg \<Rightarrow> module \<Rightarrow> error + 'a built" where
  "build_optimizer cfg model =
     (let ps = fst (build_params cfg (store model) (named_parameters model) ([], {}));
          optimizer_type = OPTIMIZER (SOLVER cfg);
          constructed =
            (if optimizer_type = ''SGD'' then
               Inr \<lparr>optim_class = maybe_add_full_model_gradient_clipping cfg SGD,
                    param_groups = ps,
                    default_lr = BASE_LR (SOLVER cfg),
                    momentum = Some (MOMENTUM (SOLVER cfg))\<rparr>
             else if optimizer_type = ''ADAMW'' then
               Inr \<lparr>optim_class = maybe_add_full_model_gradient_clipping cfg AdamW,
                    param_groups = ps,
                    default_lr = BASE_LR (SOLVER cfg),
                    momentum = None\<rparr>
             else Inl (NotImplementedError (''no optimizer type '' @ optimizer_type)))
      in case constructed of
           Inl e \<Rightarrow> Inl e
         | Inr optimizer \<Rightarrow>
             if \<not> CLIP_TYPE (CLIP_GRADIENTS (SOLVER cfg)) = ''full_model''
             then Inr (MaybeAddGradientClipping cfg optimizer)
             else Inr (Bare optimizer))"

subsection \<open>\<open>Trainer.build_train_loader\<close> and \<open>Trainer.build_evaluator\<close>\<close>

text \<open>
  \<open>DetrDatasetMapper\<close> (of \<open>d2/detr\<close>), \<open>build_detection_train_loader\<close> and
  \<open>COCOEvaluator\<close> (of the framework) are constructed by the script and never
  inspected: each is the constructor applied to the arguments the script passes.
\<close>

datatype 'a dataset_mapper = DetrDatasetMapper "'a cfg" bool

datatype 'a train_loader =
  BuildDetectionTrainLoader "'a cfg" "'a dataset_mapper option"

fun mapper_passed :: "'a train_loader \<Rightarrow> 'a dataset_mapper option" where
  "mapper_passed (BuildDetectionTrainLoader c mapper) = mapper"

definition build_train_loader :: "'a cfg \<Rightarrow> 'a train_loader" where
  "build_train_loader cfg =
     (let mapper = (if ''Detr'' = META_ARCHITECTURE (MODEL cfg)
                    then Some (DetrDatasetMapper cfg True) else None)
      in BuildDetectionTrainLoader cfg mapper)"

datatype 'a evaluator = COCOEvaluator string "'a cfg" bool string

text \<open>
  \<open>os.path.join\<close> of two components, as \<open>posixpath\<close> defines it: an absolute second
  component replaces the first; otherwise the two are concatenated, with a \<open>/\<close>
  between them unless the first is empty or already ends with one.
\<close>

definition os_path_join :: "string \<Rightarrow> string \<Rightarrow> string" where
  "os_path_join a b =
     (if prefix ''/'' b then b
      else if a = [] \<or> suffix ''/'' a then a @ b
      else a @ ''/'' @ b)"

definition build_evaluator :: "'a cfg \<Rightarrow> string \<Rightarrow> string option \<Rightarrow> 'a evaluator" where
  "build_evaluator cfg dataset_name output_folder =
     (let output_folder' =
            (case output_folder of
               None \<Rightarrow> os_path_join (OUTPUT_DIR cfg) ''inference''
             | Some folder \<Rightarrow> folder)
      in COCOEvaluator dataset_name cfg True output_folder')"

subsection \<open>The function \<open>setup\<close>\<close>

text \<open>
  Modelled from the spec: the configuration node that \<open>setup\<close> assembles. Its
  operations (\<open>get_cfg\<close>, \<open>merge_from_file\<close>, \<open>merge_from_list\<close> and \<open>freeze\<close> of the
  framework, \<open>add_detr_config\<close> of \<open>d2/detr\<close>) are not in \<open>train_net.py\<close>. Following the
  spec, a node is a key/value mapping that is built by layering, a later layer
  overriding an earlier one, and a frozen node permits no further mutation: every
  mutating operation on it fails. The framework defaults, the keys of the detector
  extension and the contents of the configuration files are parameters.
  \<open>default_setup(cfg, args)\<close> only sets up the environment (logging, seeding, output
  directories); it receives the frozen node and is not modelled further.
\<close>

record 'v cfg_node =
  entries :: "string \<rightharpoonup> 'v"
  frozen :: bool

record 'v framework =
  defaults :: "string \<rightharpoonup> 'v"
  detr_extension :: "string \<rightharpoonup> 'v"
  config_files :: "string \<Rightarrow> (string \<rightharpoonup> 'v)"

record 'v args =
  config_file :: string
  opts :: "(string \<times> 'v) list"

datatype config_error = Frozen

text \<open>
  Modelled from the spec: the guard of every mutating operation of a configuration
  node ("no further mutation permitted" once frozen); the framework's node class is
  not in \<open>train_net.py\<close>.
\<close>

definition mutate ::
  "((string \<rightharpoonup> 'v) \<Rightarrow> (string \<rightharpoonup> 'v)) \<Rightarrow> 'v cfg_node \<Rightarrow> config_error + 'v cfg_node" where
  "mutate f c = (if frozen c then Inl Frozen else Inr (c\<lparr>entries := f (entries c)\<rparr>))"

text \<open>
  Modelled from the spec: \<open>get_cfg()\<close> of the framework, a fresh unfrozen node holding
  the framework defaults.
\<close>

definition get_cfg :: "'v framework \<Rightarrow> 'v cfg_node" where
  "get_cfg fw = \<lparr>entries = defaults fw, frozen = False\<rparr>"

text \<open>
  Modelled from the spec: \<open>add_detr_config\<close> of \<open>d2/detr\<close>, which is not in
  \<open>train_net.py\<close>: it layers the keys of the detector extension over the node.
\<close>

definition add_detr_config :: "'v framework \<Rightarrow> 'v cfg_node \<Rightarrow> config_error + 'v cfg_node" where
  "add_detr_config fw c = mutate (\<lambda>m. m ++ detr_extension fw) c"

text \<open>
  Modelled from the spec: \<open>cfg.merge_from_file\<close> of the framework, which layers the
  contents of the named file over the node.
\<close>

definition merge_from_file ::
  "'v framework \<Rightarrow> string \<Rightarrow> 'v cfg_node \<Rightarrow> config_error + 'v cfg_node" where
  "merge_from_file fw path c = mutate (\<lambda>m. m ++ config_files fw path) c"

text \<open>
  Modelled from the spec: \<open>cfg.merge_from_list\<close> of the framework, which applies the
  key/value overrides in the order given.
\<close>

definition merge_from_list ::
  "(string \<times> 'v) list \<Rightarrow> 'v cfg_node \<Rightarrow> config_error + 'v cfg_node" where
  "merge_from_list kvs c = mutate (\<lambda>m. fold (\<lambda>(k, v) m'. m'(k \<mapsto> v)) kvs m) c"

text \<open>
  Modelled from the spec: the assignment of one key of a node, the mutation a caller
  of \<open>setup\<close> could attempt on what it returns.
\<close>

definition set_entry :: "string \<Rightarrow> 'v \<Rightarrow> 'v cfg_node \<Rightarrow> config_error + 'v cfg_node" where
  "set_entry k v c = mutate (\<lambda>m. m(k \<mapsto> v)) c"

text \<open>
  Modelled from the spec: \<open>cfg.freeze()\<close> of the framework.
\<close>

definition freeze :: "'v cfg_node \<Rightarrow> 'v cfg_node" where
  "freeze c = c\<lparr>frozen := True\<rparr>"

text \<open>
  The body of \<open>setup\<close>, lines 135 to 141 (\<open>setup_cfg\<close> here, \<open>setup\<close> being reserved):
  an exception of a call ends the function.
\<close>

definition setup_cfg :: "'v framework \<Rightarrow> 'v args \<Rightarrow> config_error + 'v cfg_node" where
  "setup_cfg fw args =
     (case add_detr_config fw (get_cfg fw) of
        Inl e \<Rightarrow> Inl e
      | Inr c1 \<Rightarrow>
          (case merge_from_file fw (config_file args) c1 of
             Inl e \<Rightarrow> Inl e
           | Inr c2 \<Rightarrow>
               (case merge_from_list (opts args) c2 of
                  Inl e \<Rightarrow> Inl e
                | Inr c3 \<Rightarrow> Inr (freeze c3))))"

subsection \<open>Reference description of the emitted groups\<close>

text \<open>
  What the loop of \<open>build_optimizer\<close> is compared with: the entries of the iteration
  that yield a trainable tensor for the first time, in iteration order, and the group
  whose hyperparameters are read off one entry's name.
\<close>

definition first_occurrences ::
  "(param_ref \<Rightarrow> tensor) \<Rightarrow> (string \<times> param_ref) list \<Rightarrow> (string \<times> param_ref) list" where
  "first_occurrences st nps =
     map (\<lambda>i. nps ! i)
       (filter (\<lambda>i. requires_grad (st (snd (nps ! i))) \<and> snd (nps ! i) \<notin> snd ` set (take i nps))
          [0..<length nps])"

definition group_by_name :: "('a::times) cfg \<Rightarrow> string \<times> param_ref \<Rightarrow> 'a param_group" where
  "group_by_name cfg kv =
     \<lparr>params = [snd kv],
      lr = (if sublist ''backbone'' (fst kv)
            then BASE_LR (SOLVER cfg) * BACKBONE_MULTIPLIER (SOLVER cfg)
            else BASE_LR (SOLVER cfg)),
      weight_decay = WEIGHT_DECAY (SOLVER cfg)\<rparr>"

subsection \<open>Concrete inputs\<close>

text \<open>
  A configuration with the values of the DETR configuration files, parametrised by
  the optimizer type and the clipping settings, and a model of four tensors: tensor
  \<open>1\<close> is shared by \<open>input_proj\<close> and the backbone, tensor \<open>3\<close> by the backbone and
  \<open>class_embed\<close>, and tensor \<open>2\<close> is frozen.
\<close>

definition example_cfg :: "string \<Rightarrow> bool \<Rightarrow> string \<Rightarrow> real \<Rightarrow> real cfg" where
  "example_cfg optimizer_type enabled clip_type clip_value =
     \<lparr>SOLVER = \<lparr>BASE_LR = 1 / 10000, WEIGHT_DECAY = 1 / 1000, BACKBONE_MULTIPLIER = 1 / 10,
                MOMENTUM = 9 / 10, OPTIMIZER = optimizer_type,
                CLIP_GRADIENTS =
                  \<lparr>ENABLED = enabled, CLIP_TYPE = clip_type, CLIP_VALUE = clip_value\<rparr>\<rparr>,
      MODEL = \<lparr>META_ARCHITECTURE = ''Detr''\<rparr>,
      OUTPUT_DIR = ''./output''\<rparr>"

definition example_model :: module where
  "example_model =
     \<lparr>named_parameters =
        [(''backbone.0.weight'', 0), (''input_proj.weight'', 1),
         (''backbone.tied.weight'', 1), (''backbone.0.bias'', 2),
         (''backbone.1.weight'', 3), (''class_embed.weight'', 3)],
      store = (\<lambda>r. \<lparr>requires_grad = (r \<noteq> 2)\<rparr>)\<rparr>"

definition example_groups :: "real param_group list" where
  "example_groups =
     [\<lparr>params = [0], lr = 1 / 100000, weight_decay = 1 / 1000\<rparr>,
      \<lparr>params = [1], lr = 1 / 10000, weight_decay = 1 / 1000\<rparr>,
      \<lparr>params = [3], lr = 1 / 100000, weight_decay = 1 / 1000\<rparr>]"

text \<open>
  A model in which no tensor is yielded twice; tensor \<open>2\<close> is frozen.
\<close>

definition plain_model :: module where
  "plain_model =
     \<lparr>named_parameters =
        [(''backbone.0.weight'', 0), (''class_embed.weight'', 1), (''backbone.0.bias'', 2)],
      store = (\<lambda>r. \<lparr>requires_grad = (r \<noteq> 2)\<rparr>)\<rparr>"

text \<open>
  Inputs of \<open>setup\<close>: framework defaults, the keys of the detector extension, one
  configuration file, and command-line arguments that name the file and override
  two keys.
\<close>

definition example_framework :: "string framework" where
  "example_framework =
     \<lparr>defaults = [''SOLVER.BASE_LR'' \<mapsto> ''0.001'', ''OUTPUT_DIR'' \<mapsto> ''./output''],
      detr_extension = [''SOLVER.OPTIMIZER'' \<mapsto> ''ADAMW''],
      config_files = (\<lambda>path. if path = ''detr.yaml''
                               then [''SOLVER.BASE_LR'' \<mapsto> ''0.0001''] else Map.empty)\<rparr>"

definition example_args :: "string args" where
  "example_args =
     \<lparr>config_file = ''detr.yaml'',
      opts = [(''OUTPUT_DIR'', ''detr_testing''), (''SOLVER.BASE_LR'', ''0.0002'')]\<rparr>"

section \<open>Properties of the parameter loop\<close>

lemma build_params_append:
  "build_params cfg st (xs @ ys) s = build_params cfg st ys (build_params cfg st xs s)"
proof (induction xs arbitrary: s)
  case Nil
  show ?case by (cases s) simp
next
  case (Cons x xs)
  obtain key v where x: "x = (key, v)" by (cases x)
  obtain ps memo where s: "s = (ps, memo)" by (cases s)
  show ?case unfolding x s by (simp add: Cons.IH Let_def)
qed

text \<open>After the loop, \<open>memo\<close> holds what it held before and every trainable tensor met.\<close>

lemma build_params_memo:
  "snd (build_params cfg st xs (ps, memo)) =
     memo \<union> {v \<in> snd ` set xs. requires_grad (st v)}"
proof (induction xs arbitrary: ps memo)
  case Nil
  show ?case by simp
next
  case (Cons x xs)
  obtain key v where x: "x = (key, v)" by (cases x)
  show ?case unfolding x by (auto simp: Cons.IH Let_def)
qed

lemma first_occurrences_snoc:
  "first_occurrences st (xs @ [(key, v)]) =
     first_occurrences st xs @
       (if requires_grad (st v) \<and> v \<notin> snd ` set xs then [(key, v)] else [])"
proof -
  have "filter (\<lambda>i. requires_grad (st (snd ((xs @ [(key, v)]) ! i))) \<and>
            snd ((xs @ [(key, v)]) ! i) \<notin> snd ` set (take i (xs @ [(key, v)])))
          [0..<length xs] =
        filter (\<lambda>i. requires_grad (st (snd (xs ! i))) \<and> snd (xs ! i) \<notin> snd ` set (take i xs))
          [0..<length xs]"
    by (rule filter_cong) (auto simp: nth_append)
  moreover have "map ((!) (xs @ [(key, v)])) js = map ((!) xs) js"
    if "set js \<subseteq> {0..<length xs}" for js
    using that by (auto simp: nth_append)
  ultimately show ?thesis
    unfolding first_occurrences_def by (auto simp: nth_append)
qed

text \<open>The loop, started on the empty list and the empty set, emits one group per first
  occurrence of a trainable tensor, with the hyperparameters of that occurrence's name.\<close>

lemma build_params_groups:
  "fst (build_params cfg st xs ([], {})) = map (group_by_name cfg) (first_occurrences st xs)"
proof (induction xs rule: rev_induct)
  case Nil
  show ?case by (simp add: first_occurrences_def)
next
  case (snoc x xs)
  obtain key v where x: "x = (key, v)" by (cases x)
  obtain ps memo where r: "build_params cfg st xs ([], {}) = (ps, memo)"
    by (cases "build_params cfg st xs ([], {})")
  have memo: "memo = {v \<in> snd ` set xs. requires_grad (st v)}"
    using build_params_memo [of cfg st xs "[]" "{}"] r by simp
  have ps: "ps = map (group_by_name cfg) (first_occurrences st xs)"
    using snoc.IH r by simp
  show ?case
    unfolding x build_params_append r first_occurrences_snoc
    by (simp add: memo ps Let_def group_by_name_def)
qed

lemma first_occurrences_refs:
  "distinct (map snd (first_occurrences st xs)) \<and>
   set (map snd (first_occurrences st xs)) = {v \<in> snd ` set xs. requires_grad (st v)}"
proof (induction xs rule: rev_induct)
  case Nil
  show ?case by (simp add: first_occurrences_def)
next
  case (snoc x xs)
  obtain key v where x: "x = (key, v)" by (cases x)
  show ?case unfolding x first_occurrences_snoc using snoc.IH by auto
qed

lemma length_filter_distinct:
  "distinct xs \<Longrightarrow> v \<in> set xs \<Longrightarrow> length (filter (\<lambda>x. v = x) xs) = 1"
  by (induction xs) (auto simp: filter_empty_conv)

section \<open>Properties of \<open>build_optimizer\<close>\<close>

lemma build_optimizer_groups:
  assumes "build_optimizer cfg model = Inr w"
  shows "param_groups (optimizer_of w) =
           map (group_by_name cfg) (first_occurrences (store model) (named_parameters model))"
  using assms
  unfolding build_optimizer_def Let_def build_params_groups
  by (auto split: if_splits)

lemma example_run:
  "build_optimizer (example_cfg ''ADAMW'' True ''full_model'' (1 / 100)) example_model =
     Inr (Bare \<lparr>optim_class = FullModelGradientClippingOptimizer AdamW (1 / 100),
                param_groups = example_groups,
                default_lr = 1 / 10000, momentum = None\<rparr>)"
  by (simp add: build_optimizer_def example_cfg_def example_model_def example_groups_def
      maybe_add_full_model_gradient_clipping_def Let_def sublist_code)

lemma example_run_sgd:
  "build_optimizer (example_cfg ''SGD'' True ''full_model'' 0) example_model =
     Inr (Bare \<lparr>optim_class = Torch SGD,
                param_groups = example_groups,
                default_lr = 1 / 10000, momentum = Some (9 / 10)\<rparr>)"
  by (simp add: build_optimizer_def example_cfg_def example_model_def example_groups_def
      maybe_add_full_model_gradient_clipping_def Let_def sublist_code)

lemma example_run_norm:
  "build_optimizer (example_cfg ''SGD'' True ''norm'' 1) example_model =
     Inr (MaybeAddGradientClipping (example_cfg ''SGD'' True ''norm'' 1)
            \<lparr>optim_class = Torch SGD,
             param_groups = example_groups,
             default_lr = 1 / 10000, momentum = Some (9 / 10)\<rparr>)"
  by (simp add: build_optimizer_def example_model_def example_groups_def
      maybe_add_full_model_gradient_clipping_def Let_def sublist_code)
     (simp add: example_cfg_def)

lemma example_run_disabled:
  "build_optimizer (example_cfg ''ADAMW'' False ''full_model'' (1 / 100)) example_model =
     Inr (Bare \<lparr>optim_class = Torch AdamW,
                param_groups = example_groups,
                default_lr = 1 / 10000, momentum = None\<rparr>)"
  by (simp add: build_optimizer_def example_cfg_def example_model_def example_groups_def
      maybe_add_full_model_gradient_clipping_def Let_def sublist_code)

lemma plain_run:
  "build_optimizer (example_cfg ''ADAMW'' True ''full_model'' (1 / 100)) plain_model =
     Inr (Bare \<lparr>optim_class = FullModelGradientClippingOptimizer AdamW (1 / 100),
                param_groups =
                  [\<lparr>params = [0], lr = 1 / 100000, weight_decay = 1 / 1000\<rparr>,
                   \<lparr>params = [1], lr = 1 / 10000, weight_decay = 1 / 1000\<rparr>],
                default_lr = 1 / 10000, momentum = None\<rparr>)"
  by (simp add: build_optimizer_def example_cfg_def plain_model_def
      maybe_add_full_model_gradient_clipping_def Let_def sublist_code)

lemma first_occurrences_nth:
  assumes "kv \<in> set (first_occurrences st nps)"
  shows "\<exists>i. i < length nps \<and> nps ! i = kv \<and> requires_grad (st (snd kv)) \<and>
             snd kv \<notin> snd ` set (take i nps)"
  using assms unfolding first_occurrences_def by auto

section \<open>Properties of \<open>setup\<close>\<close>

lemma fold_update_map_of:
  "fold (\<lambda>(k, v) m'. m'(k \<mapsto> v)) kvs m = m ++ map_of (rev kvs)"
proof (induction kvs arbitrary: m)
  case Nil
  show ?case by simp
next
  case (Cons x kvs)
  obtain k v where x: "x = (k, v)" by (cases x)
  have "fold (\<lambda>(k, v) m'. m'(k \<mapsto> v)) (x # kvs) m =
        fold (\<lambda>(k, v) m'. m'(k \<mapsto> v)) kvs (m(k \<mapsto> v))"
    unfolding x by (simp only: fold_simps o_apply case_prod_conv)
  also have "\<dots> = m(k \<mapsto> v) ++ map_of (rev kvs)"
    by (rule Cons.IH)
  also have "\<dots> = m ++ map_of (rev (x # kvs))"
    unfolding x by (rule ext) (simp add: map_add_def split: option.splits)
  finally show ?case .
qed

section \<open>The claims\<close>

text \<open>
  Claim C1. For a model whose iteration of \<open>named_parameters\<close> yields some trainable
  tensor more than once, the optimizer that \<open>build_optimizer\<close> returns has exactly one
  parameter group per distinct trainable tensor: there are as many groups as distinct
  trainable tensors, every group holds a single tensor, and every trainable tensor
  of the iteration lies in exactly one group.
\<close>

theorem build_optimizer_one_group_per_shared_tensor:
  assumes ret: "build_optimizer cfg model = Inr w"
    and shared: "\<not> distinct (map snd (filter (\<lambda>kv. requires_grad (store model (snd kv)))
                                (named_parameters model)))"
  shows "length (param_groups (optimizer_of w)) =
           card {v \<in> snd ` set (named_parameters model). requires_grad (store model v)} \<and>
         (\<forall>g \<in> set (param_groups (optimizer_of w)). length (params g) = 1) \<and>
         (\<forall>v \<in> snd ` set (named_parameters model). requires_grad (store model v) \<longrightarrow>
            length (filter (\<lambda>g. v \<in> set (params g)) (param_groups (optimizer_of w))) = 1)"
proof -
  let ?fo = "first_occurrences (store model) (named_parameters model)"
  let ?T = "{v \<in> snd ` set (named_parameters model). requires_grad (store model v)}"
  have gs: "param_groups (optimizer_of w) = map (group_by_name cfg) ?fo"
    using ret by (rule build_optimizer_groups)
  have d: "distinct (map snd ?fo)" and s: "set (map snd ?fo) = ?T"
    using first_occurrences_refs [of "store model" "named_parameters model"] by simp_all
  have "length (param_groups (optimizer_of w)) = length (map snd ?fo)"
    by (simp add: gs)
  also have "\<dots> = card ?T"
    using distinct_card [OF d] s by simp
  finally have n: "length (param_groups (optimizer_of w)) = card ?T" .
  have one: "\<forall>g \<in> set (param_groups (optimizer_of w)). length (params g) = 1"
    by (simp add: gs group_by_name_def)
  have cnt: "length (filter (\<lambda>g. v \<in> set (params g)) (param_groups (optimizer_of w))) = 1"
    if "v \<in> ?T" for v
  proof -
    have "filter (\<lambda>g. v \<in> set (params g)) (map (group_by_name cfg) ?fo) =
          map (group_by_name cfg) (filter (\<lambda>kv. v = snd kv) ?fo)"
      by (simp add: filter_map o_def group_by_name_def)
    then have "length (filter (\<lambda>g. v \<in> set (params g)) (param_groups (optimizer_of w))) =
               length (filter (\<lambda>x. v = x) (map snd ?fo))"
      by (simp add: gs filter_map o_def)
    also have "\<dots> = 1"
      using d that s by (intro length_filter_distinct) simp_all
    finally show ?thesis .
  qed
  show ?thesis using n one cnt by blast
qed

theorem build_optimizer_one_group_per_shared_tensor_witness:
  "length (filter (\<lambda>kv. snd kv = 1) (named_parameters example_model)) = 2 \<and>
   length (filter (\<lambda>g. 1 \<in> set (params g))
     (param_groups (optimizer_of (projr
        (build_optimizer (example_cfg ''ADAMW'' True ''full_model'' (1 / 100)) example_model))))) = 1 \<and>
   length (param_groups (optimizer_of (projr
        (build_optimizer (example_cfg ''ADAMW'' True ''full_model'' (1 / 100)) example_model)))) = 3"
proof -
  have shared: "\<not> distinct (map snd (filter (\<lambda>kv. requires_grad (store example_model (snd kv)))
                                (named_parameters example_model)))"
    by (simp add: example_model_def)
  have t: "(1::nat) \<in> snd ` set (named_parameters example_model)"
    "requires_grad (store example_model 1)"
    by (simp_all add: example_model_def)
  have "length (filter (\<lambda>kv. snd kv = 1) (named_parameters example_model)) = 2"
    by (simp add: example_model_def)
  moreover have "length (filter (\<lambda>g. 1 \<in> set (params g))
     (param_groups (optimizer_of (Bare \<lparr>optim_class = FullModelGradientClippingOptimizer AdamW (1 / 100),
                param_groups = example_groups,
                default_lr = 1 / 10000, momentum = None\<rparr>)))) = 1"
    using build_optimizer_one_group_per_shared_tensor [OF example_run shared] t by blast
  ultimately show ?thesis
    by (simp add: example_run) (simp add: example_groups_def)
qed

text \<open>
  Claim C2. In the optimizer that \<open>build_optimizer\<close> returns, every parameter group
  carries the weight decay \<open>cfg.SOLVER.WEIGHT_DECAY\<close> and holds one tensor, and its
  learning rate is read off the name under which the loop made the group (the \<open>key\<close>
  that line 94 tests, the entry that yields the tensor for the first time):
  \<open>cfg.SOLVER.BASE_LR * cfg.SOLVER.BACKBONE_MULTIPLIER\<close> when that name contains
  \<open>backbone\<close>, and \<open>cfg.SOLVER.BASE_LR\<close> otherwise. When the iteration yields no tensor
  twice, this covers every yielded name: each trainable entry has a group, and any
  group that holds its tensor has the learning rate that the entry's name decides.
\<close>

theorem build_optimizer_lr_by_name:
  assumes ret: "build_optimizer cfg model = Inr w"
  shows "(\<forall>g \<in> set (param_groups (optimizer_of w)).
            weight_decay g = WEIGHT_DECAY (SOLVER cfg) \<and>
            (\<exists>i key v. i < length (named_parameters model) \<and>
               named_parameters model ! i = (key, v) \<and>
               v \<notin> snd ` set (take i (named_parameters model)) \<and>
               params g = [v] \<and>
               lr g = (if sublist ''backbone'' key
                       then BASE_LR (SOLVER cfg) * BACKBONE_MULTIPLIER (SOLVER cfg)
                       else BASE_LR (SOLVER cfg)))) \<and>
         (distinct (map snd (named_parameters model)) \<longrightarrow>
            (\<forall>(key, v) \<in> set (named_parameters model). requires_grad (store model v) \<longrightarrow>
               (\<exists>g \<in> set (param_groups (optimizer_of w)). params g = [v]) \<and>
               (\<forall>g \<in> set (param_groups (optimizer_of w)). v \<in> set (params g) \<longrightarrow>
                  lr g = (if sublist ''backbone'' key
                          then BASE_LR (SOLVER cfg) * BACKBONE_MULTIPLIER (SOLVER cfg)
                          else BASE_LR (SOLVER cfg)) \<and>
                  weight_decay g = WEIGHT_DECAY (SOLVER cfg))))"
proof -
  let ?nps = "named_parameters model"
  let ?fo = "first_occurrences (store model) ?nps"
  let ?gs = "param_groups (optimizer_of w)"
  have gs: "?gs = map (group_by_name cfg) ?fo"
    using ret by (rule build_optimizer_groups)
  have sub: "kv \<in> set ?nps" if "kv \<in> set ?fo" for kv
    using first_occurrences_nth [OF that] by auto
  have first: "weight_decay g = WEIGHT_DECAY (SOLVER cfg) \<and>
            (\<exists>i key v. i < length ?nps \<and> ?nps ! i = (key, v) \<and>
               v \<notin> snd ` set (take i ?nps) \<and> params g = [v] \<and>
               lr g = (if sublist ''backbone'' key
                       then BASE_LR (SOLVER cfg) * BACKBONE_MULTIPLIER (SOLVER cfg)
                       else BASE_LR (SOLVER cfg)))"
    if "g \<in> set ?gs" for g
  proof -
    from that obtain kv where kv: "kv \<in> set ?fo" and g: "g = group_by_name cfg kv"
      using gs by auto
    obtain i where i: "i < length ?nps" "?nps ! i = kv" "snd kv \<notin> snd ` set (take i ?nps)"
      using first_occurrences_nth [OF kv] by blast
    obtain key v where p: "kv = (key, v)" by (cases kv)
    have "i < length ?nps \<and> ?nps ! i = (key, v) \<and> v \<notin> snd ` set (take i ?nps) \<and>
          params g = [v] \<and>
          lr g = (if sublist ''backbone'' key
                  then BASE_LR (SOLVER cfg) * BACKBONE_MULTIPLIER (SOLVER cfg)
                  else BASE_LR (SOLVER cfg))"
      using i by (simp add: g p group_by_name_def)
    then show ?thesis by (simp add: g group_by_name_def) blast
  qed
  have second: "(\<exists>g \<in> set ?gs. params g = [v]) \<and>
               (\<forall>g \<in> set ?gs. v \<in> set (params g) \<longrightarrow>
                  lr g = (if sublist ''backbone'' key
                          then BASE_LR (SOLVER cfg) * BACKBONE_MULTIPLIER (SOLVER cfg)
                          else BASE_LR (SOLVER cfg)) \<and>
                  weight_decay g = WEIGHT_DECAY (SOLVER cfg))"
    if d: "distinct (map snd ?nps)" and e: "(key, v) \<in> set ?nps"
      and t: "requires_grad (store model v)" for key v
  proof -
    have uniq: "kv = (key, v)" if "kv \<in> set ?nps" "snd kv = v" for kv
    proof -
      have "inj_on snd (set ?nps)" using d by (simp add: distinct_map)
      moreover have "snd kv = snd (key, v)" using that by simp
      ultimately show ?thesis using that(1) e by (rule inj_onD)
    qed
    have "v \<in> set (map snd ?fo)"
      using first_occurrences_refs [of "store model" ?nps] e t by force
    then obtain kv where kv: "kv \<in> set ?fo" "snd kv = v" by auto
    have "kv = (key, v)" using uniq [OF sub [OF kv(1)] kv(2)] .
    then have mem: "(key, v) \<in> set ?fo" using kv(1) by simp
    have "group_by_name cfg (key, v) \<in> set ?gs"
      using mem by (simp add: gs)
    moreover have "params (group_by_name cfg (key, v)) = [v]"
      by (simp add: group_by_name_def)
    ultimately have ex: "\<exists>g \<in> set ?gs. params g = [v]" by blast
    have all: "lr g = (if sublist ''backbone'' key
                          then BASE_LR (SOLVER cfg) * BACKBONE_MULTIPLIER (SOLVER cfg)
                          else BASE_LR (SOLVER cfg)) \<and>
                  weight_decay g = WEIGHT_DECAY (SOLVER cfg)"
      if "g \<in> set ?gs" "v \<in> set (params g)" for g
    proof -
      from that(1) have "g \<in> group_by_name cfg ` set ?fo" by (simp add: gs)
      then obtain kv' where k: "kv' \<in> set ?fo" "g = group_by_name cfg kv'" by blast
      have "snd kv' = v" using that(2) k(2) by (simp add: group_by_name_def)
      then have "kv' = (key, v)" using uniq [OF sub [OF k(1)]] by simp
      then show ?thesis by (simp add: k(2) group_by_name_def)
    qed
    show ?thesis using ex all by blast
  qed
  show ?thesis using first second by blast
qed

theorem build_optimizer_lr_by_name_witness:
  "distinct (map snd (named_parameters plain_model)) \<and>
   (''backbone.0.weight'', 0) \<in> set (named_parameters plain_model) \<and>
   (''class_embed.weight'', 1) \<in> set (named_parameters plain_model) \<and>
   param_groups (optimizer_of (projr
        (build_optimizer (example_cfg ''ADAMW'' True ''full_model'' (1 / 100)) plain_model))) =
     [\<lparr>params = [0], lr = 1 / 100000, weight_decay = 1 / 1000\<rparr>,
      \<lparr>params = [1], lr = 1 / 10000, weight_decay = 1 / 1000\<rparr>] \<and>
   list_all (\<lambda>g. 0 \<in> set (params g) \<longrightarrow>
        lr g = BASE_LR (SOLVER (example_cfg ''ADAMW'' True ''full_model'' (1 / 100))) *
               BACKBONE_MULTIPLIER (SOLVER (example_cfg ''ADAMW'' True ''full_model'' (1 / 100))))
     (param_groups (optimizer_of (projr
        (build_optimizer (example_cfg ''ADAMW'' True ''full_model'' (1 / 100)) plain_model)))) \<and>
   list_all (\<lambda>g. 1 \<in> set (params g) \<longrightarrow>
        lr g = BASE_LR (SOLVER (example_cfg ''ADAMW'' True ''full_model'' (1 / 100))))
     (param_groups (optimizer_of (projr
        (build_optimizer (example_cfg ''ADAMW'' True ''full_model'' (1 / 100)) plain_model)))) \<and>
   list_all (\<lambda>g. weight_decay g = 1 / 1000)
     (param_groups (optimizer_of (projr
        (build_optimizer (example_cfg ''ADAMW'' True ''full_model'' (1 / 100)) example_model)))) \<and>
   map lr (param_groups (optimizer_of (projr
        (build_optimizer (example_cfg ''ADAMW'' True ''full_model'' (1 / 100)) example_model)))) =
     [1 / 100000, 1 / 10000, 1 / 100000]"
proof -
  let ?c = "example_cfg ''ADAMW'' True ''full_model'' (1 / 100)"
  let ?w = "Bare \<lparr>optim_class = FullModelGradientClippingOptimizer AdamW (1 / 100 :: real),
                param_groups =
                  [\<lparr>params = [0], lr = 1 / 100000, weight_decay = 1 / 1000\<rparr>,
                   \<lparr>params = [1], lr = 1 / 10000, weight_decay = 1 / 1000\<rparr>],
                default_lr = 1 / 10000, momentum = None\<rparr>"
  have d: "distinct (map snd (named_parameters plain_model))"
    by (simp add: plain_model_def)
  have m: "(''backbone.0.weight'', 0) \<in> set (named_parameters plain_model)"
    "(''class_embed.weight'', 1) \<in> set (named_parameters plain_model)"
    "requires_grad (store plain_model 0)" "requires_grad (store plain_model 1)"
    by (simp_all add: plain_model_def)
  have s: "sublist ''backbone'' ''backbone.0.weight''" "\<not> sublist ''backbone'' ''class_embed.weight''"
    by (simp_all add: sublist_code)
  have T: "\<forall>(key, v) \<in> set (named_parameters plain_model).
             requires_grad (store plain_model v) \<longrightarrow>
               (\<exists>g \<in> set (param_groups (optimizer_of ?w)). params g = [v]) \<and>
               (\<forall>g \<in> set (param_groups (optimizer_of ?w)). v \<in> set (params g) \<longrightarrow>
                  lr g = (if sublist ''backbone'' key
                          then BASE_LR (SOLVER ?c) * BACKBONE_MULTIPLIER (SOLVER ?c)
                          else BASE_LR (SOLVER ?c)) \<and>
                  weight_decay g = WEIGHT_DECAY (SOLVER ?c))"
    using build_optimizer_lr_by_name [OF plain_run] d by blast
  have a: "\<forall>g \<in> set (param_groups (optimizer_of ?w)). 0 \<in> set (params g) \<longrightarrow>
             lr g = BASE_LR (SOLVER ?c) * BACKBONE_MULTIPLIER (SOLVER ?c)"
    using bspec [OF T m(1)] m(3) s(1) by (simp only: case_prod_conv if_True) blast
  have b: "\<forall>g \<in> set (param_groups (optimizer_of ?w)). 1 \<in> set (params g) \<longrightarrow>
             lr g = BASE_LR (SOLVER ?c)"
    using bspec [OF T m(2)] m(4) s(2) by (simp only: case_prod_conv if_False) blast
  have c: "list_all (\<lambda>g. weight_decay g = WEIGHT_DECAY (SOLVER ?c))
     (param_groups (optimizer_of (Bare \<lparr>optim_class = FullModelGradientClippingOptimizer AdamW (1 / 100),
                param_groups = example_groups,
                default_lr = 1 / 10000, momentum = None\<rparr>)))"
    using build_optimizer_lr_by_name [OF example_run] unfolding list_all_iff by blast
  have a': "list_all (\<lambda>g. 0 \<in> set (params g) \<longrightarrow>
             lr g = BASE_LR (SOLVER ?c) * BACKBONE_MULTIPLIER (SOLVER ?c))
          (param_groups (optimizer_of ?w))"
    using a unfolding list_all_iff .
  have b': "list_all (\<lambda>g. 1 \<in> set (params g) \<longrightarrow> lr g = BASE_LR (SOLVER ?c))
          (param_groups (optimizer_of ?w))"
    using b unfolding list_all_iff .
  have e: "map lr example_groups = [1 / 100000, 1 / 10000, 1 / 100000]"
    "list_all (\<lambda>g. weight_decay g = 1 / 1000) example_groups"
    by (simp_all add: example_groups_def)
  show ?thesis
    unfolding plain_run example_run sum.sel
    using d m(1,2) a' b' e by simp
qed

text \<open>
  Claim C3 asks for exactly one clipping strategy on every returned optimizer. With
  clipping enabled, the type \<open>full_model\<close> and a clip value of \<open>0\<close>, the optimizer is
  returned with neither: the local wrapper needs a positive value, and the guard of
  line 126 keeps the framework's wrapper away from the type \<open>full_model\<close>.
\<close>

theorem build_optimizer_exactly_one_clipping_counterexample:
  "ENABLED (CLIP_GRADIENTS (SOLVER (example_cfg ''SGD'' True ''full_model'' 0))) \<and>
   CLIP_TYPE (CLIP_GRADIENTS (SOLVER (example_cfg ''SGD'' True ''full_model'' 0))) = ''full_model'' \<and>
   \<not> 0 < CLIP_VALUE (CLIP_GRADIENTS (SOLVER (example_cfg ''SGD'' True ''full_model'' 0))) \<and>
   build_optimizer (example_cfg ''SGD'' True ''full_model'' 0) example_model =
     Inr (Bare \<lparr>optim_class = Torch SGD,
                param_groups = example_groups,
                default_lr = 1 / 10000, momentum = Some (9 / 10)\<rparr>) \<and>
   \<not> full_model_clipping (Bare \<lparr>optim_class = Torch SGD,
                param_groups = example_groups,
                default_lr = 1 / 10000, momentum = Some (9 / 10)\<rparr>) \<and>
   \<not> per_group_clipping (Bare \<lparr>optim_class = Torch SGD,
                param_groups = example_groups,
                default_lr = 1 / 10000, momentum = Some (9 / 10)\<rparr>)"
  using example_run_sgd by (simp add: example_cfg_def)

text \<open>
  Claim C3, amended. An optimizer that \<open>build_optimizer\<close> returns carries at most one
  clipping strategy: its class is the full-model clipping wrapper exactly when
  \<open>ENABLED\<close> is true, \<open>CLIP_TYPE\<close> is \<open>full_model\<close> and \<open>CLIP_VALUE\<close> is strictly positive; it
  was passed through the framework's \<open>maybe_add_gradient_clipping\<close> exactly when
  \<open>CLIP_TYPE\<close> is not \<open>full_model\<close>; and never both.
\<close>

theorem build_optimizer_at_most_one_clipping:
  assumes "build_optimizer cfg model = Inr w"
  shows "(full_model_clipping w \<longleftrightarrow>
            ENABLED (CLIP_GRADIENTS (SOLVER cfg)) \<and>
            CLIP_TYPE (CLIP_GRADIENTS (SOLVER cfg)) = ''full_model'' \<and>
            0 < CLIP_VALUE (CLIP_GRADIENTS (SOLVER cfg))) \<and>
         (per_group_clipping w \<longleftrightarrow> CLIP_TYPE (CLIP_GRADIENTS (SOLVER cfg)) \<noteq> ''full_model'') \<and>
         \<not> (full_model_clipping w \<and> per_group_clipping w)"
  using assms
  unfolding build_optimizer_def maybe_add_full_model_gradient_clipping_def Let_def
  by (auto split: if_splits)

theorem build_optimizer_at_most_one_clipping_witness:
  "full_model_clipping (projr
      (build_optimizer (example_cfg ''ADAMW'' True ''full_model'' (1 / 100)) example_model)) \<and>
   \<not> per_group_clipping (projr
      (build_optimizer (example_cfg ''ADAMW'' True ''full_model'' (1 / 100)) example_model)) \<and>
   per_group_clipping (projr
      (build_optimizer (example_cfg ''SGD'' True ''norm'' 1) example_model)) \<and>
   \<not> full_model_clipping (projr
      (build_optimizer (example_cfg ''SGD'' True ''norm'' 1) example_model))"
proof -
  have a: "CLIP_TYPE (CLIP_GRADIENTS (SOLVER (example_cfg ''ADAMW'' True ''full_model'' (1 / 100))))
             = ''full_model''"
    "ENABLED (CLIP_GRADIENTS (SOLVER (example_cfg ''ADAMW'' True ''full_model'' (1 / 100))))"
    "0 < CLIP_VALUE (CLIP_GRADIENTS (SOLVER (example_cfg ''ADAMW'' True ''full_model'' (1 / 100))))"
    by (simp_all add: example_cfg_def)
  have b: "CLIP_TYPE (CLIP_GRADIENTS (SOLVER (example_cfg ''SGD'' True ''norm'' 1)))
             \<noteq> ''full_model''"
    by (simp add: example_cfg_def)
  show ?thesis
    using build_optimizer_at_most_one_clipping [OF example_run]
      build_optimizer_at_most_one_clipping [OF example_run_norm] a b
    by (simp only: example_run example_run_norm sum.sel) blast
qed

text \<open>
  Claim C4. For an optimizer type other than \<open>SGD\<close> and \<open>ADAMW\<close>, \<open>build_optimizer\<close>
  raises \<open>NotImplementedError\<close> with the message \<open>no optimizer type\<close> followed by the
  string itself; no optimizer is returned.
\<close>

theorem build_optimizer_unsupported_type:
  assumes "OPTIMIZER (SOLVER cfg) \<noteq> ''SGD''" and "OPTIMIZER (SOLVER cfg) \<noteq> ''ADAMW''"
  shows "build_optimizer cfg model =
           Inl (NotImplementedError (''no optimizer type '' @ OPTIMIZER (SOLVER cfg)))"
  using assms unfolding build_optimizer_def Let_def by simp

theorem build_optimizer_unsupported_type_witness:
  "build_optimizer (example_cfg ''Adam'' True ''full_model'' (1 / 100)) example_model =
     Inl (NotImplementedError ''no optimizer type Adam'') \<and>
   build_optimizer (example_cfg ''sgd'' True ''norm'' 1) example_model =
     Inl (NotImplementedError ''no optimizer type sgd'')"
proof -
  have a: "OPTIMIZER (SOLVER (example_cfg ''Adam'' True ''full_model'' (1 / 100))) = ''Adam''"
    and b: "OPTIMIZER (SOLVER (example_cfg ''sgd'' True ''norm'' 1)) = ''sgd''"
    by (simp_all add: example_cfg_def)
  show ?thesis
    using build_optimizer_unsupported_type
            [of "example_cfg ''Adam'' True ''full_model'' (1 / 100)" example_model]
          build_optimizer_unsupported_type
            [of "example_cfg ''sgd'' True ''norm'' 1" example_model]
    by (simp add: a b)
qed

text \<open>
  Claim C5. No tensor whose \<open>requires_grad\<close> is false appears in a parameter group of
  the optimizer that \<open>build_optimizer\<close> returns.
\<close>

theorem build_optimizer_skips_frozen:
  assumes "build_optimizer cfg model = Inr w"
  shows "\<forall>g \<in> set (param_groups (optimizer_of w)). \<forall>v \<in> set (params g).
           requires_grad (store model v)"
proof -
  let ?fo = "first_occurrences (store model) (named_parameters model)"
  have gs: "param_groups (optimizer_of w) = map (group_by_name cfg) ?fo"
    using assms by (rule build_optimizer_groups)
  have "snd kv \<in> {v \<in> snd ` set (named_parameters model). requires_grad (store model v)}"
    if "kv \<in> set ?fo" for kv
    using first_occurrences_refs [of "store model" "named_parameters model"] that
    by (metis imageI set_map)
  then show ?thesis by (auto simp: gs group_by_name_def)
qed

theorem build_optimizer_skips_frozen_witness:
  "(''backbone.0.bias'', 2) \<in> set (named_parameters example_model) \<and>
   \<not> requires_grad (store example_model 2) \<and>
   list_all (\<lambda>g. list_all (\<lambda>v. requires_grad (store example_model v)) (params g))
     (param_groups (optimizer_of (projr
        (build_optimizer (example_cfg ''ADAMW'' True ''full_model'' (1 / 100)) example_model)))) \<and>
   map params (param_groups (optimizer_of (projr
        (build_optimizer (example_cfg ''ADAMW'' True ''full_model'' (1 / 100)) example_model)))) =
     [[0], [1], [3]]"
proof -
  have "list_all (\<lambda>g. list_all (\<lambda>v. requires_grad (store example_model v)) (params g))
     (param_groups (optimizer_of (Bare \<lparr>optim_class = FullModelGradientClippingOptimizer AdamW (1 / 100),
                param_groups = example_groups,
                default_lr = 1 / 10000, momentum = None\<rparr>)))"
    using build_optimizer_skips_frozen [OF example_run] by (simp only: list_all_iff)
  then show ?thesis
    by (simp add: example_run) (simp add: example_groups_def example_model_def)
qed

text \<open>
  Claim C6. When \<open>CLIP_TYPE\<close> is \<open>full_model\<close> and clipping is disabled or \<open>CLIP_VALUE\<close> is
  not strictly positive, an optimizer that \<open>build_optimizer\<close> returns carries neither
  the full-model wrapper nor the framework's wrapper: it is an optimizer of the plain
  library class that was never passed to \<open>maybe_add_gradient_clipping\<close>.
\<close>

theorem build_optimizer_full_model_disabled_no_clipping:
  assumes "CLIP_TYPE (CLIP_GRADIENTS (SOLVER cfg)) = ''full_model''"
    and "\<not> ENABLED (CLIP_GRADIENTS (SOLVER cfg)) \<or>
         \<not> 0 < CLIP_VALUE (CLIP_GRADIENTS (SOLVER cfg))"
    and "build_optimizer cfg model = Inr w"
  shows "\<not> full_model_clipping w \<and> \<not> per_group_clipping w \<and>
         (\<exists>optimizer t. w = Bare optimizer \<and> optim_class optimizer = Torch t)"
  using assms
  unfolding build_optimizer_def maybe_add_full_model_gradient_clipping_def Let_def
  by (auto split: if_splits)

theorem build_optimizer_full_model_disabled_no_clipping_witness:
  "build_optimizer (example_cfg ''ADAMW'' False ''full_model'' (1 / 100)) example_model =
     Inr (Bare \<lparr>optim_class = Torch AdamW,
                param_groups = example_groups,
                default_lr = 1 / 10000, momentum = None\<rparr>) \<and>
   \<not> full_model_clipping (Bare \<lparr>optim_class = Torch AdamW,
                param_groups = example_groups,
                default_lr = 1 / 10000, momentum = None\<rparr>) \<and>
   \<not> per_group_clipping (Bare \<lparr>optim_class = Torch AdamW,
                param_groups = example_groups,
                default_lr = 1 / 10000, momentum = None\<rparr>) \<and>
   \<not> full_model_clipping (projr
      (build_optimizer (example_cfg ''SGD'' True ''full_model'' 0) example_model)) \<and>
   \<not> per_group_clipping (projr
      (build_optimizer (example_cfg ''SGD'' True ''full_model'' 0) example_model))"
proof -
  have a: "CLIP_TYPE (CLIP_GRADIENTS (SOLVER (example_cfg ''ADAMW'' False ''full_model'' (1 / 100))))
             = ''full_model''"
    and b: "\<not> ENABLED (CLIP_GRADIENTS (SOLVER (example_cfg ''ADAMW'' False ''full_model'' (1 / 100)))) \<or>
         \<not> 0 < CLIP_VALUE (CLIP_GRADIENTS (SOLVER (example_cfg ''ADAMW'' False ''full_model'' (1 / 100))))"
    by (simp_all add: example_cfg_def)
  have a': "CLIP_TYPE (CLIP_GRADIENTS (SOLVER (example_cfg ''SGD'' True ''full_model'' 0)))
             = ''full_model''"
    and b': "\<not> ENABLED (CLIP_GRADIENTS (SOLVER (example_cfg ''SGD'' True ''full_model'' 0))) \<or>
         \<not> 0 < CLIP_VALUE (CLIP_GRADIENTS (SOLVER (example_cfg ''SGD'' True ''full_model'' 0)))"
    by (simp_all add: example_cfg_def)
  show ?thesis
    using build_optimizer_full_model_disabled_no_clipping [OF a b example_run_disabled]
      build_optimizer_full_model_disabled_no_clipping [OF a' b' example_run_sgd]
    by (simp only: example_run_disabled example_run_sgd sum.sel) simp
qed

text \<open>
  Claim C7. \<open>setup\<close> returns a configuration: a key has the value of the last
  command-line override of it, else the value of the configuration file, else the
  value of the detector extension, else the framework default. The configuration is
  frozen, and every mutating operation on it fails.
\<close>

theorem setup_layers_then_freezes:
  "\<exists>cfg. setup_cfg fw args = Inr cfg \<and> frozen cfg \<and>
     (\<forall>key. entries cfg key =
        (case map_of (rev (opts args)) key of
           Some v \<Rightarrow> Some v
         | None \<Rightarrow>
             (case config_files fw (config_file args) key of
                Some v \<Rightarrow> Some v
              | None \<Rightarrow>
                  (case detr_extension fw key of
                     Some v \<Rightarrow> Some v
                   | None \<Rightarrow> defaults fw key)))) \<and>
     (\<forall>k v. set_entry k v cfg = Inl Frozen) \<and>
     (\<forall>kvs. merge_from_list kvs cfg = Inl Frozen) \<and>
     (\<forall>path. merge_from_file fw path cfg = Inl Frozen) \<and>
     add_detr_config fw cfg = Inl Frozen"
proof -
  let ?m = "((defaults fw ++ detr_extension fw) ++ config_files fw (config_file args))
              ++ map_of (rev (opts args))"
  have r: "setup_cfg fw args = Inr \<lparr>entries = ?m, frozen = True\<rparr>"
    by (simp add: setup_cfg_def add_detr_config_def merge_from_file_def merge_from_list_def
        mutate_def get_cfg_def freeze_def fold_update_map_of)
  have l: "?m key =
        (case map_of (rev (opts args)) key of
           Some v \<Rightarrow> Some v
         | None \<Rightarrow>
             (case config_files fw (config_file args) key of
                Some v \<Rightarrow> Some v
              | None \<Rightarrow>
                  (case detr_extension fw key of
                     Some v \<Rightarrow> Some v
                   | None \<Rightarrow> defaults fw key)))" for key
    by (simp add: map_add_def split: option.splits)
  show ?thesis
    unfolding r using l
    by (simp add: set_entry_def merge_from_list_def merge_from_file_def add_detr_config_def
        mutate_def)
qed

theorem setup_layers_then_freezes_witness:
  "\<not> isl (setup_cfg example_framework example_args) \<and>
   frozen (projr (setup_cfg example_framework example_args)) \<and>
   entries (projr (setup_cfg example_framework example_args)) ''SOLVER.BASE_LR'' = Some ''0.0002'' \<and>
   entries (projr (setup_cfg example_framework example_args)) ''SOLVER.OPTIMIZER'' = Some ''ADAMW'' \<and>
   entries (projr (setup_cfg example_framework example_args)) ''OUTPUT_DIR'' = Some ''detr_testing'' \<and>
   set_entry ''OUTPUT_DIR'' ''elsewhere'' (projr (setup_cfg example_framework example_args)) =
     Inl Frozen"
proof -
  obtain cfg where r: "setup_cfg example_framework example_args = Inr cfg"
    and f: "frozen cfg"
    and e: "\<And>key. entries cfg key =
        (case map_of (rev (opts example_args)) key of
           Some v \<Rightarrow> Some v
         | None \<Rightarrow>
             (case config_files example_framework (config_file example_args) key of
                Some v \<Rightarrow> Some v
              | None \<Rightarrow>
                  (case detr_extension example_framework key of
                     Some v \<Rightarrow> Some v
                   | None \<Rightarrow> defaults example_framework key)))"
    and s: "\<And>k v. set_entry k v cfg = Inl Frozen"
    using setup_layers_then_freezes [of example_framework example_args] by blast
  show ?thesis
    unfolding r by (simp add: f e s) (simp add: example_framework_def example_args_def)
qed

text \<open>
  Claim C8. \<open>build_train_loader\<close> passes \<open>DetrDatasetMapper(cfg, True)\<close> to the
  framework's loader builder exactly when \<open>cfg.MODEL.META_ARCHITECTURE\<close> is the string
  \<open>Detr\<close>, and passes \<open>None\<close> exactly when it is any other string.
\<close>

theorem build_train_loader_mapper:
  "(mapper_passed (build_train_loader cfg) = Some (DetrDatasetMapper cfg True)
      \<longleftrightarrow> META_ARCHITECTURE (MODEL cfg) = ''Detr'') \<and>
   (mapper_passed (build_train_loader cfg) = None
      \<longleftrightarrow> META_ARCHITECTURE (MODEL cfg) \<noteq> ''Detr'') \<and>
   build_train_loader cfg =
     BuildDetectionTrainLoader cfg (mapper_passed (build_train_loader cfg))"
  by (auto simp: build_train_loader_def)

theorem build_train_loader_mapper_witness:
  "build_train_loader (example_cfg ''ADAMW'' True ''full_model'' (1 / 100)) =
     BuildDetectionTrainLoader (example_cfg ''ADAMW'' True ''full_model'' (1 / 100))
       (Some (DetrDatasetMapper (example_cfg ''ADAMW'' True ''full_model'' (1 / 100)) True)) \<and>
   build_train_loader
       ((example_cfg ''ADAMW'' True ''full_model'' (1 / 100))
          \<lparr>MODEL := \<lparr>META_ARCHITECTURE = ''GeneralizedRCNN''\<rparr>\<rparr>) =
     BuildDetectionTrainLoader
       ((example_cfg ''ADAMW'' True ''full_model'' (1 / 100))
          \<lparr>MODEL := \<lparr>META_ARCHITECTURE = ''GeneralizedRCNN''\<rparr>\<rparr>) None"
proof -
  have a: "META_ARCHITECTURE (MODEL (example_cfg ''ADAMW'' True ''full_model'' (1 / 100))) = ''Detr''"
    by (simp add: example_cfg_def)
  have b: "META_ARCHITECTURE (MODEL ((example_cfg ''ADAMW'' True ''full_model'' (1 / 100))
          \<lparr>MODEL := \<lparr>META_ARCHITECTURE = ''GeneralizedRCNN''\<rparr>\<rparr>)) \<noteq> ''Detr''"
    by simp
  show ?thesis
    using build_train_loader_mapper [of "example_cfg ''ADAMW'' True ''full_model'' (1 / 100)"]
      build_train_loader_mapper [of "(example_cfg ''ADAMW'' True ''full_model'' (1 / 100))
          \<lparr>MODEL := \<lparr>META_ARCHITECTURE = ''GeneralizedRCNN''\<rparr>\<rparr>"] a b
    by metis
qed

text \<open>
  Claim C9. Called without an output folder, \<open>build_evaluator\<close> returns the COCO
  evaluator for the directory \<open>os.path.join(cfg.OUTPUT_DIR, "inference")\<close>; called with
  one, it passes that folder on unchanged.
\<close>

theorem build_evaluator_output_folder:
  "build_evaluator cfg dataset_name None =
     COCOEvaluator dataset_name cfg True (os_path_join (OUTPUT_DIR cfg) ''inference'') \<and>
   build_evaluator cfg dataset_name (Some folder) =
     COCOEvaluator dataset_name cfg True folder \<and>
   os_path_join (OUTPUT_DIR cfg) ''inference'' =
     (if OUTPUT_DIR cfg = [] \<or> suffix ''/'' (OUTPUT_DIR cfg)
      then OUTPUT_DIR cfg @ ''inference''
      else OUTPUT_DIR cfg @ ''/inference'')"
  by (simp add: build_evaluator_def os_path_join_def)

theorem build_evaluator_output_folder_witness:
  "build_evaluator (example_cfg ''ADAMW'' True ''full_model'' (1 / 100)) ''uav_dataset1'' None =
     COCOEvaluator ''uav_dataset1'' (example_cfg ''ADAMW'' True ''full_model'' (1 / 100)) True
       ''./output/inference'' \<and>
   build_evaluator (example_cfg ''ADAMW'' True ''full_model'' (1 / 100)) ''uav_dataset1''
       (Some '''') =
     COCOEvaluator ''uav_dataset1'' (example_cfg ''ADAMW'' True ''full_model'' (1 / 100)) True ''''"
proof -
  have a: "OUTPUT_DIR (example_cfg ''ADAMW'' True ''full_model'' (1 / 100)) = ''./output''"
    by (simp add: example_cfg_def)
  have b: "\<not> suffix ''/'' ''./output''"
    by (simp add: suffix_def)
  show ?thesis
    using build_evaluator_output_folder
      [of "example_cfg ''ADAMW'' True ''full_model'' (1 / 100)" "''uav_dataset1''" "''''"] b
    by (simp add: a)
qed

text \<open>
  Claim C10. The parameter groups of the returned optimizer are, in iteration order,
  one group for each entry of \<open>named_parameters\<close> that yields a trainable tensor for the
  first time; the learning rate of the group is decided by the name of that entry
  alone, and later entries for the same tensor add nothing.
\<close>

theorem build_optimizer_first_occurrence_order:
  assumes "build_optimizer cfg model = Inr w"
  shows "param_groups (optimizer_of w) =
           map (\<lambda>i. \<lparr>params = [snd (named_parameters model ! i)],
                     lr = (if sublist ''backbone'' (fst (named_parameters model ! i))
                           then BASE_LR (SOLVER cfg) * BACKBONE_MULTIPLIER (SOLVER cfg)
                           else BASE_LR (SOLVER cfg)),
                     weight_decay = WEIGHT_DECAY (SOLVER cfg)\<rparr>)
             (filter (\<lambda>i. requires_grad (store model (snd (named_parameters model ! i))) \<and>
                          snd (named_parameters model ! i) \<notin>
                            snd ` set (take i (named_parameters model)))
                [0..<length (named_parameters model)])"
  using build_optimizer_groups [OF assms]
  by (simp add: first_occurrences_def group_by_name_def o_def)

theorem build_optimizer_first_occurrence_order_witness:
  "named_parameters example_model ! 1 = (''input_proj.weight'', 1) \<and>
   named_parameters example_model ! 2 = (''backbone.tied.weight'', 1) \<and>
   named_parameters example_model ! 4 = (''backbone.1.weight'', 3) \<and>
   named_parameters example_model ! 5 = (''class_embed.weight'', 3) \<and>
   param_groups (optimizer_of (projr
        (build_optimizer (example_cfg ''ADAMW'' True ''full_model'' (1 / 100)) example_model))) =
     [\<lparr>params = [0], lr = 1 / 100000, weight_decay = 1 / 1000\<rparr>,
      \<lparr>params = [1], lr = 1 / 10000, weight_decay = 1 / 1000\<rparr>,
      \<lparr>params = [3], lr = 1 / 100000, weight_decay = 1 / 1000\<rparr>]"
proof -
  have u: "[0..<6] = [0, 1, 2, 3, 4, 5::nat]" by (simp add: upt_rec)
  have "param_groups (optimizer_of (Bare \<lparr>optim_class = FullModelGradientClippingOptimizer AdamW (1 / 100),
                param_groups = example_groups,
                default_lr = 1 / 10000, momentum = None\<rparr>)) =
     [\<lparr>params = [0], lr = 1 / 100000, weight_decay = 1 / 1000\<rparr>,
      \<lparr>params = [1], lr = 1 / 10000, weight_decay = 1 / 1000\<rparr>,
      \<lparr>params = [3], lr = 1 / 100000, weight_decay = 1 / 1000\<rparr>]"
    unfolding build_optimizer_first_occurrence_order [OF example_run]
    by (simp add: example_model_def example_cfg_def u sublist_code)
  then show ?thesis
    by (simp add: example_run) (simp add: example_model_def)
qed

end
